theory Spec2Isabelle
  imports Complex_Main
begin

section \<open>JavaScript string and array primitives used by constructPrompt.ts\<close>

text \<open>
  Strings are lists of \<^typ>\<open>char\<close>; a character stands for one code unit in the range
  0..255. The primitives below follow ECMAScript: \<open>indexOf\<close> and \<open>lastIndexOf\<close> answer
  -1 when the character does not occur, \<open>slice\<close> converts its arguments to integers by
  truncation, counts a negative index from the end and clamps both ends to the string,
  \<open>split\<close> of the empty string is the one-element list holding the empty string.
\<close>

abbreviation NL :: char where
  "NL \<equiv> CHR 0x0A"

definition indexOf :: "string \<Rightarrow> char \<Rightarrow> int" where
  "indexOf s c = (if c \<in> set s then int (length (takeWhile (\<lambda>x. x \<noteq> c) s)) else - 1)"

definition lastIndexOf :: "string \<Rightarrow> char \<Rightarrow> int" where
  "lastIndexOf s c =
     (if c \<in> set s then int (length s) - 1 - int (length (takeWhile (\<lambda>x. x \<noteq> c) (rev s)))
      else - 1)"

text \<open>
  The conversion of a number to an index truncates towards zero. Numbers that are not
  integers are exact rationals here.
\<close>

definition toIntegerOrInfinity :: "rat \<Rightarrow> int" where
  "toIntegerOrInfinity x = (if 0 \<le> x then \<lfloor>x\<rfloor> else \<lceil>x\<rceil>)"

definition relativeIndex :: "nat \<Rightarrow> int \<Rightarrow> nat" where
  "relativeIndex len i = (if i < 0 then nat (max (int len + i) 0) else nat (min i (int len)))"

definition slice :: "string \<Rightarrow> int \<Rightarrow> int \<Rightarrow> string" where
  "slice s start fin =
     (let from = relativeIndex (length s) start; to = relativeIndex (length s) fin
      in take (to - from) (drop from s))"

text \<open>\<open>s.slice(start)\<close>, with no end: from the index to the end of the string.\<close>

definition slice_from :: "string \<Rightarrow> int \<Rightarrow> string" where
  "slice_from s start = drop (relativeIndex (length s) start) s"

definition isWhiteSpace :: "char \<Rightarrow> bool" where
  "isWhiteSpace c \<longleftrightarrow>
     c \<in> set [CHR 0x09, CHR 0x0A, CHR 0x0B, CHR 0x0C, CHR 0x0D, CHR 0x20, CHR 0xA0]"

definition trim :: "string \<Rightarrow> string" where
  "trim s = rev (dropWhile isWhiteSpace (rev (dropWhile isWhiteSpace s)))"

fun split :: "string \<Rightarrow> char \<Rightarrow> string list" where
  "split [] c = [[]]"
| "split (x # xs) c =
     (if x = c then [] # split xs c
      else (case split xs c of [] \<Rightarrow> [[x]] | w # ws \<Rightarrow> (x # w) # ws))"

fun join :: "string list \<Rightarrow> string \<Rightarrow> string" where
  "join [] sep = []"
| "join [x] sep = x"
| "join (x # y # ys) sep = x @ sep @ join (y # ys) sep"

section \<open>Data model\<close>

record AutocompleteLanguageInfo =
  comment :: string

record FileWithContents =
  filepath :: string
  contents :: string

record Point =
  row :: nat
  column :: nat

text \<open>A recently edited range: a file with its contents, and the range in it.\<close>

record RangeInFileWithContents = FileWithContents +
  range :: "Point \<times> Point"

record TabAutocompleteOptions =
  slidingWindowSize :: int
  slidingWindowPrefixPercentage :: rat
  maxPromptTokens :: int
  prefixPercentage :: rat
  maxSuffixPercentage :: rat

record AssembledPrompt =
  prefix :: string
  suffix :: string
  useFim :: bool
  completeMultiline :: bool

text \<open>
  What the function can raise: a TypeError of its own (a property read on \<open>null\<close> or
  \<open>undefined\<close>), or whatever a collaborator throws.
\<close>

datatype error = TypeError | Thrown string

text \<open>The fields of a syntax node that the code reads: \<open>type\<close>, \<open>startPosition\<close>, \<open>text\<close>.\<close>

record SyntaxNode =
  node_type :: string
  startPosition :: Point
  node_text :: string

section \<open>languageForFilepath\<close>

text \<open>
  \<open>LANGUAGES[filepath.split(".").slice(-1)[0]] || Typescript\<close>. The table and the default
  profile live in another module; they are parameters here. The table is a plain object:
  a property lookup finds an own entry first and, when there is none, a property that
  every object inherits from \<open>Object.prototype\<close>. An inherited property is a function (or
  the prototype itself, for \<open>__proto__\<close>), neither a profile nor falsy, so \<open>||\<close> does not
  replace it by the default.
\<close>

datatype languageLookup = Profile AutocompleteLanguageInfo | Inherited string

definition objectPrototypeKeys :: "string list" where
  "objectPrototypeKeys =
     [''constructor'', ''__defineGetter__'', ''__defineSetter__'', ''hasOwnProperty'',
      ''__lookupGetter__'', ''__lookupSetter__'', ''isPrototypeOf'', ''propertyIsEnumerable'',
      ''toString'', ''valueOf'', ''__proto__'', ''toLocaleString'']"

definition getProperty ::
  "(string \<rightharpoonup> AutocompleteLanguageInfo) \<Rightarrow> string \<Rightarrow> languageLookup option" where
  "getProperty obj key =
     (case obj key of
        Some l \<Rightarrow> Some (Profile l)
      | None \<Rightarrow> if key \<in> set objectPrototypeKeys then Some (Inherited key) else None)"

text \<open>
  \<open>xs.slice(-1)[0]\<close>: the last element; of an empty array it is \<open>undefined\<close>, which
  reads as the key \<open>undefined\<close> in a property lookup.
\<close>

definition lastElement :: "string list \<Rightarrow> string" where
  "lastElement xs = (case drop (length xs - 1) xs of [] \<Rightarrow> ''undefined'' | x # _ \<Rightarrow> x)"

definition languageForFilepath ::
  "(string \<rightharpoonup> AutocompleteLanguageInfo) \<Rightarrow> AutocompleteLanguageInfo \<Rightarrow> string
     \<Rightarrow> languageLookup" where
  "languageForFilepath LANGUAGES Typescript fp =
     (case getProperty LANGUAGES (lastElement (split fp (CHR ''.''))) of
        None \<Rightarrow> Profile Typescript
      | Some found \<Rightarrow> found)"

section \<open>shouldCompleteMultiline\<close>

definition BLOCK_TYPES :: "string list" where
  "BLOCK_TYPES = [''body'', ''statement_block'']"

text \<open>Lines 54 to 57: the text between the braces, trimmed.\<close>

definition afterOpeningBrace :: "string \<Rightarrow> string" where
  "afterOpeningBrace t = slice_from t (indexOf t (CHR ''{'') + 1)"

definition beforeClosingBrace :: "string \<Rightarrow> string" where
  "beforeClosingBrace t = slice t 0 (lastIndexOf t (CHR ''}''))"

definition innerText :: "string \<Rightarrow> string" where
  "innerText t = trim (beforeClosingBrace (afterOpeningBrace t))"

definition qualifies :: "SyntaxNode \<Rightarrow> nat \<Rightarrow> bool" where
  "qualifies node cursorLine \<longleftrightarrow>
     node_type node \<in> set BLOCK_TYPES \<and>
     \<bar>int (row (startPosition node)) - int cursorLine\<bar> \<le> 1"

text \<open>
  The loop of lines 48 to 60, \<open>for (let i = treePath.length - 1; i >= 0; i--)\<close>. The
  counter of the model is \<open>i + 1\<close>, so that it ends at 0. Reading \<open>treePath[i]\<close>
  outside the array gives \<open>undefined\<close>, whose \<open>type\<close> cannot be read: a TypeError.
\<close>

fun multilineLoop :: "SyntaxNode list \<Rightarrow> nat \<Rightarrow> nat \<Rightarrow> error + bool" where
  "multilineLoop treePath cursorLine 0 = Inr False"
| "multilineLoop treePath cursorLine (Suc i) =
     (if i < length treePath
      then (let node = treePath ! i
            in if qualifies node cursorLine
               then Inr (length (split (innerText (node_text node)) NL) = 1)
               else multilineLoop treePath cursorLine i)
      else Inl TypeError)"

definition shouldCompleteMultiline :: "SyntaxNode list \<Rightarrow> nat \<Rightarrow> error + bool" where
  "shouldCompleteMultiline treePath cursorLine =
     (if length treePath = 1 then Inr True
      else multilineLoop treePath cursorLine (length treePath))"

section \<open>formatExternalSnippet\<close>

definition formatExternalSnippet ::
  "(string \<Rightarrow> string) \<Rightarrow> string \<Rightarrow> string \<Rightarrow> AutocompleteLanguageInfo \<Rightarrow> string" where
  "formatExternalSnippet getBasename fp snippet language =
     (let lines = [comment language @ '' Path: '' @ getBasename fp]
                  @ map (\<lambda>line. comment language @ '' '' @ line) (split snippet NL)
                  @ [comment language]
      in join lines [NL])"

section \<open>constructAutocompletePrompt\<close>

text \<open>
  The collaborators imported from other modules are the fields of one record. Those that
  are awaited may reject, so they answer \<open>error + 'a\<close>; an optional result (\<open>undefined\<close>)
  is \<open>None\<close>. The token counter and the line pruners are taken as pure functions.
  A JavaScript number is modelled exactly: a count as an integer, a percentage and every
  product with one as a rational.
\<close>

record ('scope, 'ast) Collaborators =
  slidingWindowMatcher ::
    "FileWithContents list \<Rightarrow> string \<Rightarrow> nat \<Rightarrow> int \<Rightarrow> error + FileWithContents list"
  getScopeAroundRange :: "RangeInFileWithContents \<Rightarrow> error + 'scope option"
  getAst :: "string \<Rightarrow> string \<Rightarrow> error + 'ast option"
  getTreePathAtCursor :: "'ast \<Rightarrow> nat \<Rightarrow> error + SyntaxNode list option"
  rankSnippets ::
    "FileWithContents option list \<Rightarrow> string \<Rightarrow> error + FileWithContents option list"
  countTokens :: "string \<Rightarrow> nat"
  pruneLinesFromTop :: "string \<Rightarrow> rat \<Rightarrow> string"
  pruneLinesFromBottom :: "string \<Rightarrow> rat \<Rightarrow> string"
  getBasename :: "string \<Rightarrow> string"

type_synonym getDefinition = "string \<Rightarrow> nat \<Rightarrow> nat \<Rightarrow> error + FileWithContents option"

text \<open>Lines 88 to 94. The one-argument \<open>slice\<close> runs from the index to the end.\<close>

definition windowAroundCursor :: "'o TabAutocompleteOptions_scheme \<Rightarrow> string \<Rightarrow> string \<Rightarrow> string" where
  "windowAroundCursor options fullPrefix fullSuffix =
     slice_from fullPrefix
       (toIntegerOrInfinity
          (- of_int (slidingWindowSize options) * slidingWindowPrefixPercentage options))
     @ slice_from fullSuffix
       (toIntegerOrInfinity
          (of_int (slidingWindowSize options) * (1 - slidingWindowPrefixPercentage options)))"

text \<open>
  Lines 104 to 116. \<open>map\<close> with an async function gives an array of promises; \<open>filter\<close>
  is applied to that array, before \<open>Promise.all\<close>, and a promise is an object, hence
  truthy. \<open>Promise.all\<close> rejects as soon as one promise does.
\<close>

datatype 'a promise = Fulfilled 'a | Rejected error

definition truthy :: "'a promise \<Rightarrow> bool" where
  "truthy s = True"

fun promiseAll :: "'a promise list \<Rightarrow> error + 'a list" where
  "promiseAll [] = Inr []"
| "promiseAll (Rejected e # ps) = Inl e"
| "promiseAll (Fulfilled v # ps) =
     (case promiseAll ps of Inl e \<Rightarrow> Inl e | Inr vs \<Rightarrow> Inr (v # vs))"

definition scopeSnippet ::
  "('scope, 'ast, 'c) Collaborators_scheme \<Rightarrow> RangeInFileWithContents
     \<Rightarrow> FileWithContents option promise" where
  "scopeSnippet env r =
     (case getScopeAroundRange env r of
        Inl e \<Rightarrow> Rejected e
      | Inr None \<Rightarrow> Fulfilled None
      | Inr (Some scope) \<Rightarrow> Fulfilled (Some \<lparr>filepath = filepath r, contents = contents r\<rparr>))"

definition recentlyEdited ::
  "('scope, 'ast, 'c) Collaborators_scheme \<Rightarrow> RangeInFileWithContents list
     \<Rightarrow> error + FileWithContents option list" where
  "recentlyEdited env recentlyEditedRanges =
     promiseAll (filter (\<lambda>s. truthy s) (map (scopeSnippet env) recentlyEditedRanges))"

text \<open>Lines 119 to 129: any failure of the parser leaves \<open>treePath\<close> undefined.\<close>

definition obtainTreePath ::
  "('scope, 'ast, 'c) Collaborators_scheme \<Rightarrow> string \<Rightarrow> string \<Rightarrow> string
     \<Rightarrow> SyntaxNode list option" where
  "obtainTreePath env fp fullPrefix fullSuffix =
     (case getAst env fp (fullPrefix @ fullSuffix) of
        Inl e \<Rightarrow> None
      | Inr None \<Rightarrow> None
      | Inr (Some ast) \<Rightarrow>
          (case getTreePathAtCursor env ast (length fullPrefix) of
             Inl e \<Rightarrow> None
           | Inr treePath \<Rightarrow> treePath))"

text \<open>
  Lines 131 to 155. \<open>treePath.reverse()\<close> reverses the array in place and returns it, so
  the array handed to \<open>shouldCompleteMultiline\<close> afterwards is the reversed one.
\<close>

definition cursorLineOf :: "string \<Rightarrow> nat" where
  "cursorLineOf fullPrefix = length (split fullPrefix NL) - 1"

definition useTreePath ::
  "string \<Rightarrow> string \<Rightarrow> getDefinition \<Rightarrow> FileWithContents option list \<Rightarrow> SyntaxNode list
     \<Rightarrow> error + FileWithContents option list \<times> bool" where
  "useTreePath fp fullPrefix getDefinition snippets treePath =
     (let reversed = rev treePath;
          callExpression = find (\<lambda>node. node_type node = ''call_expression'') reversed
      in case (case callExpression of
                 None \<Rightarrow> Inr snippets
               | Some node \<Rightarrow>
                   (case getDefinition fp (row (startPosition node)) (column (startPosition node)) of
                      Inl e \<Rightarrow> Inl e
                    | Inr None \<Rightarrow> Inr snippets
                    | Inr (Some found) \<Rightarrow> Inr (snippets @ [Some found]))) of
           Inl e \<Rightarrow> Inl e
         | Inr snippets' \<Rightarrow>
             (case shouldCompleteMultiline reversed (cursorLineOf fullPrefix) of
                Inl e \<Rightarrow> Inl e
              | Inr multiline \<Rightarrow> Inr (snippets', multiline)))"

text \<open>Lines 86 to 155: the candidate snippets, before ranking, and the multiline decision.\<close>

definition candidateSnippets ::
  "('scope, 'ast, 'c) Collaborators_scheme \<Rightarrow> string \<Rightarrow> string \<Rightarrow> string \<Rightarrow> getDefinition
     \<Rightarrow> 'o TabAutocompleteOptions_scheme \<Rightarrow> RangeInFileWithContents list
     \<Rightarrow> FileWithContents list \<Rightarrow> error + FileWithContents option list \<times> bool" where
  "candidateSnippets env fp fullPrefix fullSuffix getDefinition options
       recentlyEditedRanges recentlyEditedDocuments =
     (case slidingWindowMatcher env recentlyEditedDocuments
             (windowAroundCursor options fullPrefix fullSuffix) 3 (slidingWindowSize options) of
        Inl e \<Rightarrow> Inl e
      | Inr slidingWindowMatches \<Rightarrow>
          (case recentlyEdited env recentlyEditedRanges of
             Inl e \<Rightarrow> Inl e
           | Inr edited \<Rightarrow>
               (let snippets = map Some slidingWindowMatches @ edited
                in case obtainTreePath env fp fullPrefix fullSuffix of
                     None \<Rightarrow> Inr (snippets, False)
                   | Some treePath \<Rightarrow>
                       useTreePath fp fullPrefix getDefinition snippets treePath)))"

text \<open>
  Lines 163 to 167. A null entry of the array has no \<open>filepath\<close> to read: the map
  raises a TypeError at the first one.
\<close>

fun formatSnippets ::
  "(string \<Rightarrow> string) \<Rightarrow> AutocompleteLanguageInfo \<Rightarrow> FileWithContents option list
     \<Rightarrow> error + string list" where
  "formatSnippets gb language [] = Inr []"
| "formatSnippets gb language (None # snippets) = Inl TypeError"
| "formatSnippets gb language (Some snippet # snippets) =
     (case formatSnippets gb language snippets of
        Inl e \<Rightarrow> Inl e
      | Inr blocks \<Rightarrow>
          Inr (formatExternalSnippet gb (filepath snippet) (contents snippet) language # blocks))"

text \<open>Lines 168 to 182: the budget.\<close>

definition maxPrefixTokens ::
  "('scope, 'ast, 'c) Collaborators_scheme \<Rightarrow> 'o TabAutocompleteOptions_scheme \<Rightarrow> string \<Rightarrow> rat" where
  "maxPrefixTokens env options formattedSnippets =
     of_int (maxPromptTokens options) * prefixPercentage options
     - of_nat (countTokens env formattedSnippets)"

definition finalPrefix ::
  "('scope, 'ast, 'c) Collaborators_scheme \<Rightarrow> 'o TabAutocompleteOptions_scheme \<Rightarrow> string
     \<Rightarrow> string \<Rightarrow> string" where
  "finalPrefix env options fullPrefix formattedSnippets =
     (let pruned = pruneLinesFromTop env fullPrefix (maxPrefixTokens env options formattedSnippets)
      in if length formattedSnippets > 0 then formattedSnippets @ [NL] @ pruned else pruned)"

definition maxSuffixTokens ::
  "('scope, 'ast, 'c) Collaborators_scheme \<Rightarrow> 'o TabAutocompleteOptions_scheme \<Rightarrow> string \<Rightarrow> rat" where
  "maxSuffixTokens env options pre =
     min (of_int (maxPromptTokens options) - of_nat (countTokens env pre))
         (maxSuffixPercentage options * of_int (maxPromptTokens options))"

definition assemble ::
  "('scope, 'ast, 'c) Collaborators_scheme \<Rightarrow> 'o TabAutocompleteOptions_scheme \<Rightarrow> string
     \<Rightarrow> string \<Rightarrow> string \<Rightarrow> bool \<Rightarrow> AssembledPrompt" where
  "assemble env options fullPrefix fullSuffix formattedSnippets multiline =
     (let pre = finalPrefix env options fullPrefix formattedSnippets;
          suf = pruneLinesFromBottom env fullSuffix (maxSuffixTokens env options pre)
      in \<lparr>prefix = pre, suffix = suf, useFim = True, completeMultiline = multiline\<rparr>)"

definition constructAutocompletePrompt ::
  "('scope, 'ast, 'c) Collaborators_scheme \<Rightarrow> string \<Rightarrow> string \<Rightarrow> string \<Rightarrow> string
     \<Rightarrow> AutocompleteLanguageInfo \<Rightarrow> getDefinition \<Rightarrow> 'o TabAutocompleteOptions_scheme
     \<Rightarrow> RangeInFileWithContents list \<Rightarrow> FileWithContents list \<Rightarrow> error + AssembledPrompt" where
  "constructAutocompletePrompt env fp fullPrefix fullSuffix clipboardText language getDefinition
       options recentlyEditedRanges recentlyEditedDocuments =
     (case candidateSnippets env fp fullPrefix fullSuffix getDefinition options
             recentlyEditedRanges recentlyEditedDocuments of
        Inl e \<Rightarrow> Inl e
      | Inr (snippets, multiline) \<Rightarrow>
          (case rankSnippets env snippets (windowAroundCursor options fullPrefix fullSuffix) of
             Inl e \<Rightarrow> Inl e
           | Inr ranked \<Rightarrow>
               (case formatSnippets (getBasename env) language ranked of
                  Inl e \<Rightarrow> Inl e
                | Inr blocks \<Rightarrow>
                    Inr (assemble env options fullPrefix fullSuffix (join blocks [NL])
                           multiline))))"

section \<open>The line pruners\<close>

text \<open>
  Modelled from the spec: the pruner of \<open>../llm/countTokens\<close> that removes lines from the
  top; that module is not among the sources. "Removes whole lines from the stated end
  until the result's token count is at most maxTokens": the first line goes for as long as
  the remaining text counts more than the budget and a line is left.
\<close>

fun pruneTopLines :: "(string \<Rightarrow> nat) \<Rightarrow> rat \<Rightarrow> string list \<Rightarrow> string list" where
  "pruneTopLines count maxTokens [] = []"
| "pruneTopLines count maxTokens (l # ls) =
     (if of_nat (count (join (l # ls) [NL])) \<le> maxTokens then l # ls
      else pruneTopLines count maxTokens ls)"

text \<open>
  Modelled from the spec: the top pruner on a text, which is split into lines, pruned and
  joined again.
\<close>

definition spec_pruneLinesFromTop :: "(string \<Rightarrow> nat) \<Rightarrow> string \<Rightarrow> rat \<Rightarrow> string" where
  "spec_pruneLinesFromTop count txt maxTokens =
     join (pruneTopLines count maxTokens (split txt NL)) [NL]"

text \<open>
  Modelled from the spec: the pruner of \<open>../llm/countTokens\<close> that removes lines from the
  bottom; the last argument is the number of lines still kept.
\<close>

fun pruneBottomLines :: "(string \<Rightarrow> nat) \<Rightarrow> rat \<Rightarrow> string list \<Rightarrow> nat \<Rightarrow> string list" where
  "pruneBottomLines count maxTokens ls 0 = []"
| "pruneBottomLines count maxTokens ls (Suc n) =
     (if of_nat (count (join (take (Suc n) ls) [NL])) \<le> maxTokens then take (Suc n) ls
      else pruneBottomLines count maxTokens ls n)"

text \<open>
  Modelled from the spec: the bottom pruner on a text.
\<close>

definition spec_pruneLinesFromBottom :: "(string \<Rightarrow> nat) \<Rightarrow> string \<Rightarrow> rat \<Rightarrow> string" where
  "spec_pruneLinesFromBottom count txt maxTokens =
     (let ls = split txt NL in join (pruneBottomLines count maxTokens ls (length ls)) [NL])"

section \<open>The window around the cursor, in the words of the specification\<close>

text \<open>
  "The last \<open>slidingWindowSize \<times> slidingWindowPrefixPercentage\<close> characters of the prefix
  concatenated with the first \<open>slidingWindowSize \<times> (1 - slidingWindowPrefixPercentage)\<close>
  characters of the suffix."
\<close>

definition spec_windowAroundCursor ::
  "'o TabAutocompleteOptions_scheme \<Rightarrow> string \<Rightarrow> string \<Rightarrow> string" where
  "spec_windowAroundCursor options fullPrefix fullSuffix =
     (let fromPrefix =
            nat \<lfloor>of_int (slidingWindowSize options) * slidingWindowPrefixPercentage options\<rfloor>;
          fromSuffix =
            nat \<lfloor>of_int (slidingWindowSize options)
                   * (1 - slidingWindowPrefixPercentage options)\<rfloor>
      in drop (length fullPrefix - fromPrefix) fullPrefix @ take fromSuffix fullSuffix)"

section \<open>The inner text of a block, in words\<close>




section \<open>Example inputs\<close>

text \<open>
  Collaborators that find nothing: no window match, no scope, no syntax tree, a ranker
  that keeps the order, one token per character, the base name after the last slash.
\<close>

definition exampleEnv :: "(unit, unit) Collaborators" where
  "exampleEnv =
     \<lparr>slidingWindowMatcher = (\<lambda>docs window n size. Inr []),
      getScopeAroundRange = (\<lambda>r. Inr None),
      getAst = (\<lambda>fp src. Inr None),
      getTreePathAtCursor = (\<lambda>ast offset. Inr None),
      rankSnippets = (\<lambda>snippets window. Inr snippets),
      countTokens = length,
      pruneLinesFromTop = spec_pruneLinesFromTop length,
      pruneLinesFromBottom = spec_pruneLinesFromBottom length,
      getBasename = (\<lambda>fp. lastElement (split fp (CHR ''/'')))\<rparr>"

definition exampleOptions :: TabAutocompleteOptions where
  "exampleOptions =
     \<lparr>slidingWindowSize = 4, slidingWindowPrefixPercentage = 1 / 2, maxPromptTokens = 500,
      prefixPercentage = 1 / 2, maxSuffixPercentage = 1 / 2\<rparr>"

definition noDefinition :: getDefinition where
  "noDefinition fp line character = Inr None"

definition jsLanguage :: AutocompleteLanguageInfo where
  "jsLanguage = \<lparr>comment = ''//''\<rparr>"

definition pyLanguage :: AutocompleteLanguageInfo where
  "pyLanguage = \<lparr>comment = ''#''\<rparr>"

definition exampleLanguages :: "string \<rightharpoonup> AutocompleteLanguageInfo" where
  "exampleLanguages = [''ts'' \<mapsto> jsLanguage, ''js'' \<mapsto> jsLanguage, ''py'' \<mapsto> pyLanguage]"

definition editedRange :: RangeInFileWithContents where
  "editedRange =
     \<lparr>filepath = ''/src/util.ts'', contents = ''let a = 1;'',
      range = (\<lparr>row = 0, column = 0\<rparr>, \<lparr>row = 0, column = 10\<rparr>)\<rparr>"

text \<open>An environment whose scope lookup answers for every range.\<close>

definition scopeEnv :: "(unit, unit) Collaborators" where
  "scopeEnv = exampleEnv\<lparr>getScopeAroundRange := (\<lambda>r. Inr (Some ()))\<rparr>"

text \<open>
  The file \<open>function f() { / if (x) {} / g(); / }\<close> on four lines, the cursor inside the
  braces of the second line, and the path from the root to the innermost node there.
\<close>

definition nestedPrefix :: string where
  "nestedPrefix = join [''function f() {'', ''  if (x) {''] [NL]"

definition nestedSuffix :: string where
  "nestedSuffix = join [''}'', ''  g();'', ''}''] [NL]"

definition nestedPath :: "SyntaxNode list" where
  "nestedPath =
     [\<lparr>node_type = ''program'', startPosition = \<lparr>row = 0, column = 0\<rparr>,
       node_text = join [''function f() {'', ''  if (x) {}'', ''  g();'', ''}''] [NL]\<rparr>,
      \<lparr>node_type = ''function_declaration'', startPosition = \<lparr>row = 0, column = 0\<rparr>,
       node_text = join [''function f() {'', ''  if (x) {}'', ''  g();'', ''}''] [NL]\<rparr>,
      \<lparr>node_type = ''statement_block'', startPosition = \<lparr>row = 0, column = 13\<rparr>,
       node_text = join [''{'', ''  if (x) {}'', ''  g();'', ''}''] [NL]\<rparr>,
      \<lparr>node_type = ''if_statement'', startPosition = \<lparr>row = 1, column = 2\<rparr>,
       node_text = ''if (x) {}''\<rparr>,
      \<lparr>node_type = ''statement_block'', startPosition = \<lparr>row = 1, column = 9\<rparr>,
       node_text = ''{}''\<rparr>]"

definition nestedEnv :: "(unit, unit) Collaborators" where
  "nestedEnv =
     exampleEnv\<lparr>getAst := (\<lambda>fp src. Inr (Some ())),
                getTreePathAtCursor := (\<lambda>ast offset. Inr (Some nestedPath))\<rparr>"


text \<open>A file of one line at the top level: the path is the root alone.\<close>

definition rootPath :: "SyntaxNode list" where
  "rootPath =
     [\<lparr>node_type = ''program'', startPosition = \<lparr>row = 0, column = 0\<rparr>,
       node_text = ''let a = 1;''\<rparr>]"

definition rootEnv :: "(unit, unit) Collaborators" where
  "rootEnv =
     exampleEnv\<lparr>getAst := (\<lambda>fp src. Inr (Some ())),
                getTreePathAtCursor := (\<lambda>ast offset. Inr (Some rootPath))\<rparr>"

text \<open>A prefix of six tokens on one line and a suffix of nine tokens on one line.\<close>

definition tightOptions :: "int \<Rightarrow> TabAutocompleteOptions" where
  "tightOptions budget =
     \<lparr>slidingWindowSize = 4, slidingWindowPrefixPercentage = 1 / 2, maxPromptTokens = budget,
      prefixPercentage = 1 / 2, maxSuffixPercentage = 9 / 10\<rparr>"

section \<open>Facts about the string primitives\<close>

lemma split_not_Nil: "split s c \<noteq> []"
  by (induction s) (auto split: list.splits)

lemma split_no_separator: "c \<notin> set s \<Longrightarrow> split s c = [s]"
  by (induction s) auto

lemma length_split_Cons: "x \<noteq> c \<Longrightarrow> length (split (x # xs) c) = length (split xs c)"
  using split_not_Nil [of xs c] by (cases "split xs c") auto

lemma one_line_iff: "length (split s c) = 1 \<longleftrightarrow> c \<notin> set s"
proof (induction s)
  case Nil
  then show ?case by simp
next
  case (Cons x xs)
  show ?case
  proof (cases "x = c")
    case True
    then show ?thesis using split_not_Nil [of xs c] by simp
  next
    case False
    then show ?thesis using Cons length_split_Cons [of x c xs] by simp
  qed
qed

lemma last_split: "last (split s c) = rev (takeWhile (\<lambda>x. x \<noteq> c) (rev s))"
proof (induction s)
  case Nil
  then show ?case by simp
next
  case (Cons x xs)
  show ?case
  proof (cases "x = c")
    case True
    then show ?thesis using Cons split_not_Nil [of xs c]
      by (auto simp: takeWhile_append)
  next
    case False
    obtain w ws where sp: "split xs c = w # ws"
      using split_not_Nil [of xs c] by (cases "split xs c") auto
    show ?thesis
    proof (cases "c \<in> set xs")
      case True
      then have "length (split xs c) \<noteq> 1" using one_line_iff [of xs c] by simp
      then have ws: "ws \<noteq> []" using sp by auto
      have "last (split (x # xs) c) = last (split xs c)"
        using False sp ws by simp
      moreover have "takeWhile (\<lambda>x. x \<noteq> c) (rev xs @ [x]) = takeWhile (\<lambda>x. x \<noteq> c) (rev xs)"
        using True by (auto simp: takeWhile_append)
      ultimately show ?thesis using Cons by simp
    next
      case no: False
      have a: "takeWhile (\<lambda>x. x \<noteq> c) (rev (x # xs)) = rev (x # xs)"
        unfolding takeWhile_eq_all_conv using no False by auto
      have b: "split (x # xs) c = [x # xs]"
        using no False by (intro split_no_separator) auto
      show ?thesis unfolding a b by simp
    qed
  qed
qed

lemma lastElement_last: "xs \<noteq> [] \<Longrightarrow> lastElement xs = last xs"
proof -
  assume ne: "xs \<noteq> []"
  then have "drop (length xs - 1) xs = [last xs]"
    by (metis append_butlast_last_id append_eq_conv_conj length_butlast)
  then show ?thesis by (simp add: lastElement_def)
qed

lemma afterOpeningBrace_none: "CHR ''{'' \<notin> set t \<Longrightarrow> afterOpeningBrace t = t"
  by (simp add: afterOpeningBrace_def indexOf_def slice_from_def relativeIndex_def)

lemma nat_pred_max: "nat (max (int n - 1) 0) = n - 1"
  by auto

lemma beforeClosingBrace_none: "CHR ''}'' \<notin> set t \<Longrightarrow> beforeClosingBrace t = butlast t"
  by (simp add: beforeClosingBrace_def lastIndexOf_def slice_def relativeIndex_def
      butlast_conv_take Let_def nat_pred_max)














section \<open>Facts about the assembly\<close>

lemma join_first_nonempty: "x \<noteq> [] \<Longrightarrow> join (x # xs) sep \<noteq> []"
  by (cases xs) auto

lemma formatExternalSnippet_nonempty: "formatExternalSnippet gb fp snippet language \<noteq> []"
  unfolding formatExternalSnippet_def Let_def
  by (simp add: join_first_nonempty)

lemma formatSnippets_Inr:
  "formatSnippets gb language ranked = Inr blocks \<Longrightarrow>
   \<exists>snippets. ranked = map Some snippets \<and>
     blocks = map (\<lambda>s. formatExternalSnippet gb (filepath s) (contents s) language) snippets"
proof (induction ranked arbitrary: blocks)
  case Nil
  then show ?case by simp
next
  case (Cons entry ranked)
  show ?case
  proof (cases entry)
    case None
    with Cons.prems show ?thesis by simp
  next
    case (Some snippet)
    with Cons.prems obtain rest where
      rest: "formatSnippets gb language ranked = Inr rest"
      and blocks: "blocks = formatExternalSnippet gb (filepath snippet) (contents snippet) language # rest"
      by (auto split: sum.splits)
    from Cons.IH [OF rest] obtain snippets where
      "ranked = map Some snippets"
      "rest = map (\<lambda>s. formatExternalSnippet gb (filepath s) (contents s) language) snippets"
      by blast
    with Some blocks have
      "entry # ranked = map Some (snippet # snippets) \<and>
       blocks = map (\<lambda>s. formatExternalSnippet gb (filepath s) (contents s) language) (snippet # snippets)"
      by simp
    then show ?thesis by (rule exI [of _ "snippet # snippets"])
  qed
qed

lemma construct_Inr:
  assumes "constructAutocompletePrompt env fp fullPrefix fullSuffix clip language getDef options
             ranges docs = Inr r"
  shows "\<exists>candidates multiline ranked blocks.
           candidateSnippets env fp fullPrefix fullSuffix getDef options ranges docs
             = Inr (candidates, multiline) \<and>
           rankSnippets env candidates (windowAroundCursor options fullPrefix fullSuffix)
             = Inr ranked \<and>
           formatSnippets (getBasename env) language ranked = Inr blocks \<and>
           r = assemble env options fullPrefix fullSuffix (join blocks [NL]) multiline"
  using assms unfolding constructAutocompletePrompt_def
  by (auto split: sum.splits prod.splits)

lemma useTreePath_decision:
  "useTreePath fp fullPrefix getDef snippets treePath = Inr (snippets', multiline) \<Longrightarrow>
   shouldCompleteMultiline (rev treePath) (cursorLineOf fullPrefix) = Inr multiline"
  unfolding useTreePath_def Let_def
  by (auto split: sum.splits option.splits)

lemma candidateSnippets_decision:
  assumes "candidateSnippets env fp fullPrefix fullSuffix getDef options ranges docs
             = Inr (candidates, multiline)"
  shows "case obtainTreePath env fp fullPrefix fullSuffix of
           None \<Rightarrow> multiline = False
         | Some treePath \<Rightarrow>
             shouldCompleteMultiline (rev treePath) (cursorLineOf fullPrefix) = Inr multiline"
  using assms unfolding candidateSnippets_def Let_def
  by (auto split: sum.splits option.splits dest: useTreePath_decision)

lemma multilineLoop_total:
  "k \<le> length treePath \<Longrightarrow> \<exists>decision. multilineLoop treePath cursorLine k = Inr decision"
  by (induction k) (auto simp: Let_def)

section \<open>Facts about the line pruners\<close>

lemma pruneTopLines_is_tail: "\<exists>dropped. ls = dropped @ pruneTopLines count b ls"
proof (induction ls)
  case Nil
  then show ?case by simp
next
  case (Cons l ls)
  then obtain dropped where "ls = dropped @ pruneTopLines count b ls" by blast
  then have "l # ls = (l # dropped) @ pruneTopLines count b ls" by simp
  then have "\<exists>d. l # ls = d @ pruneTopLines count b ls" by (rule exI)
  then show ?case by (cases "of_nat (count (join (l # ls) [NL])) \<le> b") auto
qed

lemma pruneTopLines_mono:
  "b \<le> b' \<Longrightarrow> \<exists>restored. pruneTopLines count b' ls = restored @ pruneTopLines count b ls"
proof (induction ls)
  case Nil
  then show ?case by simp
next
  case (Cons l ls)
  show ?case
  proof (cases "of_nat (count (join (l # ls) [NL])) \<le> b")
    case True
    with Cons.prems have "of_nat (count (join (l # ls) [NL])) \<le> b'" by simp
    with True show ?thesis by simp
  next
    case small: False
    show ?thesis
    proof (cases "of_nat (count (join (l # ls) [NL])) \<le> b'")
      case True
      obtain dropped where "ls = dropped @ pruneTopLines count b ls"
        using pruneTopLines_is_tail by blast
      then have "l # ls = (l # dropped) @ pruneTopLines count b ls" by simp
      then have "\<exists>d. l # ls = d @ pruneTopLines count b ls" by (rule exI)
      with small True show ?thesis by simp
    next
      case False
      with small Cons show ?thesis by simp
    qed
  qed
qed

lemma join_append_tail: "\<exists>front. join (dropped @ kept) sep = front @ join kept sep"
proof (induction dropped)
  case Nil
  then show ?case by simp
next
  case (Cons x dropped)
  show ?case
  proof (cases "dropped @ kept")
    case Nil
    then show ?thesis by simp
  next
    case (Cons y ys)
    from Cons.IH obtain front where "join (dropped @ kept) sep = front @ join kept sep" by blast
    with Cons have "join ((x # dropped) @ kept) sep = (x @ sep @ front) @ join kept sep" by simp
    then show ?thesis by (rule exI)
  qed
qed

lemma spec_pruneLinesFromTop_mono:
  assumes "b \<le> b'"
  shows "\<exists>restored. spec_pruneLinesFromTop count txt b'
           = restored @ spec_pruneLinesFromTop count txt b"
proof -
  from pruneTopLines_mono [OF assms] obtain ls where
    "pruneTopLines count b' (split txt NL) = ls @ pruneTopLines count b (split txt NL)"
    by blast
  then show ?thesis
    using join_append_tail [of ls "pruneTopLines count b (split txt NL)" "[NL]"]
    by (simp add: spec_pruneLinesFromTop_def)
qed

lemma pruneBottomLines_take: "\<exists>kept\<le>n. pruneBottomLines count b ls n = take kept ls"
proof (induction n)
  case 0
  then show ?case by simp
next
  case (Suc n)
  then obtain kept where "kept \<le> n" "pruneBottomLines count b ls n = take kept ls" by blast
  then have "kept \<le> Suc n \<and> pruneBottomLines count b ls n = take kept ls" by simp
  then have rec: "\<exists>kept\<le>Suc n. pruneBottomLines count b ls n = take kept ls" by blast
  show ?case
  proof (cases "of_nat (count (join (take (Suc n) ls) [NL])) \<le> b")
    case True
    then have "pruneBottomLines count b ls (Suc n) = take (Suc n) ls" by simp
    then show ?thesis by blast
  next
    case False
    with rec show ?thesis by simp
  qed
qed

lemma pruneBottomLines_fits:
  "of_nat (count []) \<le> b \<Longrightarrow> of_nat (count (join (pruneBottomLines count b ls n) [NL])) \<le> b"
  by (induction n) simp_all

lemma pruneBottomLines_negative: "b < 0 \<Longrightarrow> pruneBottomLines count b ls n = []"
proof (induction n)
  case 0
  then show ?case by simp
next
  case (Suc n)
  have "(0::rat) \<le> of_nat (count (join (take (Suc n) ls) [NL]))" by simp
  with Suc.prems have "\<not> of_nat (count (join (take (Suc n) ls) [NL])) \<le> b" by linarith
  with Suc show ?case by simp
qed

lemma candidateSnippets_budget:
  "candidateSnippets env fp fullPrefix fullSuffix getDef (options\<lparr>maxPromptTokens := budget\<rparr>)
     ranges docs
   = candidateSnippets env fp fullPrefix fullSuffix getDef options ranges docs"
  by (simp add: candidateSnippets_def windowAroundCursor_def)

section \<open>Facts about the language table\<close>

text \<open>
  An extension that names an inherited property finds that property, not the default
  profile.
\<close>

lemma inherited_property_is_returned:
  "languageForFilepath exampleLanguages jsLanguage ''a.constructor'' = Inherited ''constructor''"
  by code_simp

section \<open>The claims\<close>

text \<open>
  C1. The window around the cursor is claimed to be the last characters of the prefix
  followed by the first characters of the suffix. The one-argument \<open>slice\<close> on the suffix
  drops those first characters instead of keeping them: with a window of 4, half of it
  from the prefix, the prefix \<open>abcd\<close> and the suffix \<open>wxyz\<close> give \<open>cdyz\<close>, where the
  specification's window is \<open>cdwx\<close>.
\<close>

theorem window_drops_the_start_of_the_suffix:
  "windowAroundCursor exampleOptions ''abcd'' ''wxyz'' = ''cdyz'' \<and>
   spec_windowAroundCursor exampleOptions ''abcd'' ''wxyz'' = ''cdwx''"
  by code_simp

text \<open>
  C2. A range whose scope lookup returns nothing is claimed to be left out of the
  candidates. The filter runs on the promises, which are all truthy, so the range leaves
  a null entry in the list; with a ranker that keeps its entries, formatting then raises a
  TypeError and the request fails.
\<close>

theorem range_without_scope_leaves_null:
  "recentlyEdited exampleEnv [editedRange] = Inr [None] \<and>
   constructAutocompletePrompt exampleEnv ''/src/main.ts'' ''let b = a'' '';'' [] jsLanguage
     noDefinition exampleOptions [editedRange] [] = Inl TypeError"
  by code_simp

text \<open>
  C3. Inside \<open>constructAutocompletePrompt\<close> the decision is claimed to come from the block
  closest to the cursor. The search for a call expression has reversed the path in place,
  so the heuristic, which walks from the last element, meets the outermost block first:
  on the nested example the heuristic applied to the path from root to leaf says true
  (the inner block is empty), and the assembled result says false (the outer block has
  two lines).
\<close>

theorem reversed_path_lets_the_outer_block_decide:
  "shouldCompleteMultiline nestedPath (cursorLineOf nestedPrefix) = Inr True \<and>
   map_sum id completeMultiline
     (constructAutocompletePrompt nestedEnv ''/src/main.ts'' nestedPrefix nestedSuffix []
        jsLanguage noDefinition exampleOptions [] []) = Inr False"
  by code_simp

text \<open>
  C4. Whenever a prompt is returned, its prefix is the formatted ranked snippets, joined
  by newlines, then one newline, then the original prefix as the top pruner left it; with
  no snippet it is the pruned prefix alone. The snippets are never pruned. The suffix is
  the bottom pruner's result on the original suffix, so no snippet text enters it.
\<close>

theorem prefix_is_snippets_then_pruned_prefix:
  assumes "constructAutocompletePrompt env fp fullPrefix fullSuffix clip language getDef options
             ranges docs = Inr r"
  shows "\<exists>candidates multiline snippets formatted pruned.
           candidateSnippets env fp fullPrefix fullSuffix getDef options ranges docs
             = Inr (candidates, multiline) \<and>
           rankSnippets env candidates (windowAroundCursor options fullPrefix fullSuffix)
             = Inr (map Some snippets) \<and>
           formatted =
             join (map (\<lambda>s. formatExternalSnippet (getBasename env) (filepath s) (contents s)
                          language) snippets) [NL] \<and>
           pruned = pruneLinesFromTop env fullPrefix (maxPrefixTokens env options formatted) \<and>
           prefix r = (if snippets = [] then pruned else formatted @ [NL] @ pruned) \<and>
           suffix r = pruneLinesFromBottom env fullSuffix (maxSuffixTokens env options (prefix r))"
proof -
  from construct_Inr [OF assms] obtain candidates multiline ranked blocks where
    cand: "candidateSnippets env fp fullPrefix fullSuffix getDef options ranges docs
             = Inr (candidates, multiline)"
    and rank: "rankSnippets env candidates (windowAroundCursor options fullPrefix fullSuffix)
             = Inr ranked"
    and fmt: "formatSnippets (getBasename env) language ranked = Inr blocks"
    and r: "r = assemble env options fullPrefix fullSuffix (join blocks [NL]) multiline"
    by blast
  from formatSnippets_Inr [OF fmt] obtain snippets where
    ranked: "ranked = map Some snippets"
    and blocks: "blocks = map (\<lambda>s. formatExternalSnippet (getBasename env) (filepath s)
                                  (contents s) language) snippets"
    by blast
  have empty: "join blocks [NL] = [] \<longleftrightarrow> snippets = []"
  proof (cases snippets)
    case Nil
    then show ?thesis using blocks by simp
  next
    case (Cons s rest)
    then show ?thesis using blocks
      by (simp add: join_first_nonempty formatExternalSnippet_nonempty)
  qed
  have pre: "prefix r =
      (if snippets = [] then pruneLinesFromTop env fullPrefix (maxPrefixTokens env options (join blocks [NL]))
       else join blocks [NL] @ [NL] @
            pruneLinesFromTop env fullPrefix (maxPrefixTokens env options (join blocks [NL])))"
    using empty unfolding r assemble_def finalPrefix_def Let_def by auto
  have suf: "suffix r = pruneLinesFromBottom env fullSuffix (maxSuffixTokens env options (prefix r))"
    unfolding r assemble_def Let_def by simp
  show ?thesis
    using cand rank ranked blocks pre suf by blast
qed


theorem prefix_is_snippets_then_pruned_prefix_witness:
  "constructAutocompletePrompt scopeEnv ''/src/main.ts'' ''let b = a'' '';'' [] jsLanguage
     noDefinition exampleOptions [editedRange] []
   = Inr \<lparr>prefix = join [''// Path: util.ts'', ''// let a = 1;'', ''//'', ''let b = a''] [NL],
          suffix = '';'', useFim = True, completeMultiline = False\<rparr> \<and>
   '';'' = pruneLinesFromBottom scopeEnv '';''
            (maxSuffixTokens scopeEnv exampleOptions
               (join [''// Path: util.ts'', ''// let a = 1;'', ''//'', ''let b = a''] [NL]))"
proof -
  have run: "constructAutocompletePrompt scopeEnv ''/src/main.ts'' ''let b = a'' '';'' []
      jsLanguage noDefinition exampleOptions [editedRange] []
    = Inr \<lparr>prefix = join [''// Path: util.ts'', ''// let a = 1;'', ''//'', ''let b = a''] [NL],
           suffix = '';'', useFim = True, completeMultiline = False\<rparr>"
    by code_simp
  from prefix_is_snippets_then_pruned_prefix [OF run] show ?thesis
    using run by auto
qed

text \<open>
  C5, as amended. Whenever a prompt is returned, the budget of the suffix is the smaller
  of what the final prefix (snippets included) leaves of \<open>maxPromptTokens\<close> and of
  \<open>maxSuffixPercentage \<times> maxPromptTokens\<close>, and the suffix returned is the bottom pruner's
  result on the full suffix for that budget. With the bottom pruner as the specification
  describes it, the suffix is the full suffix without some of its last lines; it fits
  within the budget when the budget is not negative (the empty text counting no token),
  and it is empty when the budget is negative.
\<close>

theorem suffix_is_pruned_to_budget:
  assumes "constructAutocompletePrompt env fp fullPrefix fullSuffix clip language getDef options
             ranges docs = Inr r"
  shows "(let budget = min (of_int (maxPromptTokens options) - of_nat (countTokens env (prefix r)))
                          (maxSuffixPercentage options * of_int (maxPromptTokens options))
          in suffix r = pruneLinesFromBottom env fullSuffix budget \<and>
             (pruneLinesFromBottom env = spec_pruneLinesFromBottom (countTokens env) \<longrightarrow>
                (\<exists>kept\<le>length (split fullSuffix NL).
                   suffix r = join (take kept (split fullSuffix NL)) [NL]) \<and>
                (countTokens env [] = 0 \<and> 0 \<le> budget \<longrightarrow>
                   of_nat (countTokens env (suffix r)) \<le> budget) \<and>
                (budget < 0 \<longrightarrow> suffix r = [])))"
proof -
  define budget where
    "budget = min (of_int (maxPromptTokens options) - of_nat (countTokens env (prefix r)))
                  (maxSuffixPercentage options * of_int (maxPromptTokens options))"
  define ls where "ls = split fullSuffix NL"
  from construct_Inr [OF assms] obtain blocks multiline where
    "r = assemble env options fullPrefix fullSuffix (join blocks [NL]) multiline"
    by blast
  then have suf: "suffix r = pruneLinesFromBottom env fullSuffix budget"
    by (simp add: assemble_def Let_def maxSuffixTokens_def budget_def)
  have spec: "(\<exists>kept\<le>length ls. suffix r = join (take kept ls) [NL]) \<and>
      (countTokens env [] = 0 \<and> 0 \<le> budget \<longrightarrow> of_nat (countTokens env (suffix r)) \<le> budget) \<and>
      (budget < 0 \<longrightarrow> suffix r = [])"
    if pruner: "pruneLinesFromBottom env = spec_pruneLinesFromBottom (countTokens env)"
  proof (intro conjI impI)
    have eq: "suffix r = join (pruneBottomLines (countTokens env) budget ls (length ls)) [NL]"
      by (simp add: suf pruner spec_pruneLinesFromBottom_def Let_def ls_def)
    from pruneBottomLines_take [of "length ls" "countTokens env" budget ls]
    obtain kept where "kept \<le> length ls"
      "pruneBottomLines (countTokens env) budget ls (length ls) = take kept ls"
      by blast
    then have "kept \<le> length ls \<and> suffix r = join (take kept ls) [NL]"
      by (simp add: eq)
    then show "\<exists>kept\<le>length ls. suffix r = join (take kept ls) [NL]" by blast
    show "of_nat (countTokens env (suffix r)) \<le> budget"
      if "countTokens env [] = 0 \<and> 0 \<le> budget"
    proof -
      from that have "of_nat (countTokens env []) \<le> budget" by simp
      then show ?thesis unfolding eq by (rule pruneBottomLines_fits)
    qed
    show "suffix r = []" if "budget < 0"
      using that by (simp add: eq pruneBottomLines_negative)
  qed
  from suf spec show ?thesis
    unfolding Let_def budget_def [symmetric] ls_def [symmetric] by blast
qed

theorem suffix_is_pruned_to_budget_witness:
  "constructAutocompletePrompt exampleEnv ''/src/main.ts'' ''aaaaaa''
     (join [''bbb'', ''cccc''] [NL]) [] jsLanguage noDefinition (tightOptions 12) [] []
   = Inr \<lparr>prefix = ''aaaaaa'', suffix = ''bbb'', useFim = True, completeMultiline = False\<rparr> \<and>
   pruneLinesFromBottom exampleEnv = spec_pruneLinesFromBottom (countTokens exampleEnv) \<and>
   countTokens exampleEnv [] = 0 \<and>
   (0::rat) \<le> 6 \<and>
   ''bbb'' = pruneLinesFromBottom exampleEnv (join [''bbb'', ''cccc''] [NL]) 6 \<and>
   rat_of_nat (countTokens exampleEnv ''bbb'') \<le> 6"
proof -
  have run: "constructAutocompletePrompt exampleEnv ''/src/main.ts'' ''aaaaaa''
      (join [''bbb'', ''cccc''] [NL]) [] jsLanguage noDefinition (tightOptions 12) [] []
    = Inr \<lparr>prefix = ''aaaaaa'', suffix = ''bbb'', useFim = True, completeMultiline = False\<rparr>"
    by code_simp
  have pruner: "pruneLinesFromBottom exampleEnv = spec_pruneLinesFromBottom (countTokens exampleEnv)"
    by (simp add: exampleEnv_def)
  have empty: "countTokens exampleEnv [] = 0" by (simp add: exampleEnv_def)
  have budget: "min (of_int (maxPromptTokens (tightOptions 12))
                       - of_nat (countTokens exampleEnv ''aaaaaa''))
                    (maxSuffixPercentage (tightOptions 12) * of_int (maxPromptTokens (tightOptions 12)))
                = (6::rat)"
    by (simp add: tightOptions_def exampleEnv_def)
  have sel: "prefix \<lparr>prefix = ''aaaaaa'', suffix = ''bbb'', useFim = True,
                     completeMultiline = False\<rparr> = ''aaaaaa''"
    "suffix \<lparr>prefix = ''aaaaaa'', suffix = ''bbb'', useFim = True,
             completeMultiline = False\<rparr> = ''bbb''"
    by simp_all
  have room: "(0::rat) \<le> 6" by simp
  note pruned = suffix_is_pruned_to_budget [OF run, unfolded Let_def sel budget]
  from pruned pruner empty room
  have "''bbb'' = pruneLinesFromBottom exampleEnv (join [''bbb'', ''cccc''] [NL]) 6"
    and "rat_of_nat (countTokens exampleEnv ''bbb'') \<le> 6"
    by blast+
  with run pruner empty room show ?thesis by blast
qed

text \<open>
  C5, as stated, fails: nothing fits within a negative budget. With a budget of 10 the
  formatted snippet alone makes a final prefix of 34 tokens, the budget of the suffix is
  -24, and the empty suffix that is returned, of no token, is not within it.
\<close>

theorem negative_budget_fits_nothing:
  "constructAutocompletePrompt scopeEnv ''/src/main.ts'' ''let b = a'' '';'' [] jsLanguage
     noDefinition (tightOptions 10) [editedRange] []
   = Inr \<lparr>prefix = join [''// Path: util.ts'', ''// let a = 1;'', ''//'', []] [NL],
          suffix = [], useFim = True, completeMultiline = False\<rparr> \<and>
   maxSuffixTokens scopeEnv (tightOptions 10)
     (join [''// Path: util.ts'', ''// let a = 1;'', ''//'', []] [NL]) = - 24 \<and>
   \<not> rat_of_nat (countTokens scopeEnv []) \<le> - 24"
proof -
  have run: "constructAutocompletePrompt scopeEnv ''/src/main.ts'' ''let b = a'' '';'' []
      jsLanguage noDefinition (tightOptions 10) [editedRange] []
    = Inr \<lparr>prefix = join [''// Path: util.ts'', ''// let a = 1;'', ''//'', []] [NL],
           suffix = [], useFim = True, completeMultiline = False\<rparr>"
    by code_simp
  have budget: "maxSuffixTokens scopeEnv (tightOptions 10)
      (join [''// Path: util.ts'', ''// let a = 1;'', ''//'', []] [NL]) = - 24"
    by (simp add: maxSuffixTokens_def scopeEnv_def exampleEnv_def tightOptions_def)
  have unfit: "\<not> rat_of_nat (countTokens scopeEnv []) \<le> - 24"
    by (simp add: scopeEnv_def exampleEnv_def)
  from run budget unfit show ?thesis by (intro conjI)
qed




text \<open>
  C7. A path of exactly one node makes the heuristic answer true, and a prompt assembled
  from such a path has \<open>completeMultiline\<close> true.
\<close>

theorem top_level_path_is_multiline:
  assumes "length treePath = 1"
  shows "shouldCompleteMultiline treePath cursorLine = Inr True \<and>
         (obtainTreePath env fp fullPrefix fullSuffix = Some treePath \<longrightarrow>
          constructAutocompletePrompt env fp fullPrefix fullSuffix clip language getDef options
            ranges docs = Inr r \<longrightarrow>
          completeMultiline r)"
proof (intro conjI impI)
  show "shouldCompleteMultiline treePath cursorLine = Inr True"
    using assms by (simp add: shouldCompleteMultiline_def)
next
  assume path: "obtainTreePath env fp fullPrefix fullSuffix = Some treePath"
    and run: "constructAutocompletePrompt env fp fullPrefix fullSuffix clip language getDef
                options ranges docs = Inr r"
  from construct_Inr [OF run] obtain candidates multiline blocks where
    cand: "candidateSnippets env fp fullPrefix fullSuffix getDef options ranges docs
             = Inr (candidates, multiline)"
    and r: "r = assemble env options fullPrefix fullSuffix (join blocks [NL]) multiline"
    by blast
  from candidateSnippets_decision [OF cand] path
  have "shouldCompleteMultiline (rev treePath) (cursorLineOf fullPrefix) = Inr multiline"
    by simp
  moreover have "length (rev treePath) = 1" using assms by simp
  ultimately have "multiline" by (simp add: shouldCompleteMultiline_def)
  then show "completeMultiline r" by (simp add: r assemble_def Let_def)
qed

theorem top_level_path_is_multiline_witness:
  "length rootPath = 1 \<and>
   shouldCompleteMultiline rootPath 0 = Inr True \<and>
   obtainTreePath rootEnv ''/src/main.ts'' ''let a = 1;'' [] = Some rootPath \<and>
   constructAutocompletePrompt rootEnv ''/src/main.ts'' ''let a = 1;'' [] [] jsLanguage
     noDefinition exampleOptions [] []
   = Inr \<lparr>prefix = ''let a = 1;'', suffix = [], useFim = True, completeMultiline = True\<rparr> \<and>
   completeMultiline
     \<lparr>prefix = ''let a = 1;'', suffix = [], useFim = True, completeMultiline = True\<rparr>"
proof -
  have len: "length rootPath = 1" by code_simp
  have path: "obtainTreePath rootEnv ''/src/main.ts'' ''let a = 1;'' [] = Some rootPath"
    by code_simp
  have run: "constructAutocompletePrompt rootEnv ''/src/main.ts'' ''let a = 1;'' [] []
      jsLanguage noDefinition exampleOptions [] []
    = Inr \<lparr>prefix = ''let a = 1;'', suffix = [], useFim = True, completeMultiline = True\<rparr>"
    by code_simp
  from top_level_path_is_multiline [OF len, of 0 rootEnv "''/src/main.ts''" "''let a = 1;''" "[]"]
  show ?thesis using len path run by blast
qed

text \<open>
  C8, as amended. The resolver takes the text after the last dot of the path, and the
  whole path when it holds no dot. It returns the profile the table holds for that key,
  and the default profile when the table holds none and the key is not the name of a
  property inherited from \<open>Object.prototype\<close>.
\<close>

theorem language_is_looked_up_by_last_segment:
  "(let key = rev (takeWhile (\<lambda>c. c \<noteq> CHR ''.'') (rev fp))
    in (CHR ''.'' \<in> set fp \<longrightarrow> (\<exists>before. fp = before @ ''.'' @ key)) \<and>
       (CHR ''.'' \<notin> set fp \<longrightarrow> key = fp) \<and>
       (\<forall>l. LANGUAGES key = Some l \<longrightarrow>
          languageForFilepath LANGUAGES Typescript fp = Profile l) \<and>
       (LANGUAGES key = None \<and> key \<notin> set objectPrototypeKeys \<longrightarrow>
          languageForFilepath LANGUAGES Typescript fp = Profile Typescript))"
proof -
  let ?P = "\<lambda>c. c \<noteq> CHR ''.''"
  let ?key = "rev (takeWhile ?P (rev fp))"
  have key: "lastElement (split fp (CHR ''.'')) = ?key"
    using lastElement_last [OF split_not_Nil] last_split by simp
  have dotted: "\<exists>before. fp = before @ ''.'' @ ?key" if dot: "CHR ''.'' \<in> set fp"
  proof -
    from dot have "dropWhile ?P (rev fp) \<noteq> []" by simp
    then obtain rest where rest: "dropWhile ?P (rev fp) = CHR ''.'' # rest"
      using hd_dropWhile [of ?P "rev fp"] by (cases "dropWhile ?P (rev fp)") auto
    have "rev fp = takeWhile ?P (rev fp) @ dropWhile ?P (rev fp)" by simp
    then have "rev (rev fp) = rev (takeWhile ?P (rev fp) @ CHR ''.'' # rest)"
      using rest by simp
    then have "fp = rev rest @ ''.'' @ ?key" by simp
    then show ?thesis ..
  qed
  have plain: "?key = fp" if "CHR ''.'' \<notin> set fp"
  proof -
    from that have "takeWhile ?P (rev fp) = rev fp"
      by (auto simp: takeWhile_eq_all_conv)
    then show ?thesis by (simp only: rev_rev_ident)
  qed
  have own: "languageForFilepath LANGUAGES Typescript fp = Profile l"
    if "LANGUAGES ?key = Some l" for l
    using that by (simp add: languageForFilepath_def getProperty_def key)
  have default: "languageForFilepath LANGUAGES Typescript fp = Profile Typescript"
    if "LANGUAGES ?key = None \<and> ?key \<notin> set objectPrototypeKeys"
    using that by (simp add: languageForFilepath_def getProperty_def key)
  from dotted plain own default show ?thesis unfolding Let_def by blast
qed

theorem language_is_looked_up_by_last_segment_witness:
  "CHR ''.'' \<in> set ''/src/main.py'' \<and>
   languageForFilepath exampleLanguages jsLanguage ''/src/main.py'' = Profile pyLanguage \<and>
   CHR ''.'' \<notin> set ''Makefile'' \<and>
   ''Makefile'' \<notin> set objectPrototypeKeys \<and>
   languageForFilepath exampleLanguages jsLanguage ''Makefile'' = Profile jsLanguage"
proof -
  have dotted: "CHR ''.'' \<in> set ''/src/main.py''" by simp
  have py: "exampleLanguages (rev (takeWhile (\<lambda>c. c \<noteq> CHR ''.'') (rev ''/src/main.py'')))
            = Some pyLanguage"
    by (simp add: exampleLanguages_def)
  have plain: "CHR ''.'' \<notin> set ''Makefile''" by simp
  have mk: "exampleLanguages (rev (takeWhile (\<lambda>c. c \<noteq> CHR ''.'') (rev ''Makefile''))) = None"
    by (simp add: exampleLanguages_def)
  have own: "rev (takeWhile (\<lambda>c. c \<noteq> CHR ''.'') (rev ''Makefile'')) \<notin> set objectPrototypeKeys"
    by (simp add: objectPrototypeKeys_def)
  have own': "''Makefile'' \<notin> set objectPrototypeKeys"
    by (simp add: objectPrototypeKeys_def)
  from language_is_looked_up_by_last_segment [of "''/src/main.py''" exampleLanguages jsLanguage] py
  have a: "languageForFilepath exampleLanguages jsLanguage ''/src/main.py'' = Profile pyLanguage"
    unfolding Let_def by blast
  from language_is_looked_up_by_last_segment [of "''Makefile''" exampleLanguages jsLanguage] mk own
  have b: "languageForFilepath exampleLanguages jsLanguage ''Makefile'' = Profile jsLanguage"
    unfolding Let_def by blast
  from dotted plain own' a b show ?thesis by blast
qed

text \<open>
  C8, as stated, fails: a path without a dot that is itself a key of the table resolves
  to that key's profile, not to the default.
\<close>

theorem dotless_path_is_its_own_key:
  "CHR ''.'' \<notin> set ''py'' \<and>
   languageForFilepath exampleLanguages jsLanguage ''py'' = Profile pyLanguage \<and>
   Profile pyLanguage \<noteq> Profile jsLanguage"
  by code_simp

text \<open>
  C9, as amended. With line pruners as the specification describes them and a prefix
  percentage that is not negative, a larger \<open>maxPromptTokens\<close> never removes more of the
  original prefix: behind the same formatted snippets, the text kept under the smaller
  budget is a tail of the text kept under the larger one.
\<close>

theorem larger_budget_keeps_more_prefix:
  assumes "pruneLinesFromTop env = spec_pruneLinesFromTop (countTokens env)"
    and "maxPromptTokens options \<le> budget"
    and "0 \<le> prefixPercentage options"
    and "constructAutocompletePrompt env fp fullPrefix fullSuffix clip language getDef options
           ranges docs = Inr r"
  shows "\<exists>r' formatted snippetsPart kept restored.
           constructAutocompletePrompt env fp fullPrefix fullSuffix clip language getDef
             (options\<lparr>maxPromptTokens := budget\<rparr>) ranges docs = Inr r' \<and>
           kept = pruneLinesFromTop env fullPrefix (maxPrefixTokens env options formatted) \<and>
           restored @ kept =
             pruneLinesFromTop env fullPrefix
               (maxPrefixTokens env (options\<lparr>maxPromptTokens := budget\<rparr>) formatted) \<and>
           prefix r = snippetsPart @ kept \<and>
           prefix r' = snippetsPart @ restored @ kept"
proof -
  let ?options' = "options\<lparr>maxPromptTokens := budget\<rparr>"
  from construct_Inr [OF assms(4)] obtain candidates multiline ranked blocks where
    cand: "candidateSnippets env fp fullPrefix fullSuffix getDef options ranges docs
             = Inr (candidates, multiline)"
    and rank: "rankSnippets env candidates (windowAroundCursor options fullPrefix fullSuffix)
             = Inr ranked"
    and fmt: "formatSnippets (getBasename env) language ranked = Inr blocks"
    and r: "r = assemble env options fullPrefix fullSuffix (join blocks [NL]) multiline"
    by blast
  let ?formatted = "join blocks [NL]"
  let ?r' = "assemble env ?options' fullPrefix fullSuffix ?formatted multiline"
  have window: "windowAroundCursor ?options' fullPrefix fullSuffix
      = windowAroundCursor options fullPrefix fullSuffix"
    by (simp add: windowAroundCursor_def)
  have run': "constructAutocompletePrompt env fp fullPrefix fullSuffix clip language getDef
      ?options' ranges docs = Inr ?r'"
    unfolding constructAutocompletePrompt_def candidateSnippets_budget window
    using cand rank fmt by simp
  have "of_int (maxPromptTokens options) * prefixPercentage options
      \<le> of_int budget * prefixPercentage options"
    using assms(2,3) by (intro mult_right_mono) simp_all
  then have budgets: "maxPrefixTokens env options ?formatted
      \<le> maxPrefixTokens env ?options' ?formatted"
    by (simp add: maxPrefixTokens_def)
  let ?kept = "pruneLinesFromTop env fullPrefix (maxPrefixTokens env options ?formatted)"
  from spec_pruneLinesFromTop_mono [OF budgets] obtain restored where
    restored: "pruneLinesFromTop env fullPrefix (maxPrefixTokens env ?options' ?formatted)
      = restored @ ?kept"
    unfolding assms(1) by blast
  let ?snippetsPart = "if length ?formatted > 0 then ?formatted @ [NL] else []"
  have pre: "prefix r = ?snippetsPart @ ?kept"
    by (simp add: r assemble_def finalPrefix_def Let_def)
  have pre': "prefix ?r' = ?snippetsPart @ restored @ ?kept"
    using restored by (simp add: assemble_def finalPrefix_def Let_def)
  from run' restored pre pre' show ?thesis by metis
qed

theorem larger_budget_keeps_more_prefix_witness:
  "pruneLinesFromTop exampleEnv = spec_pruneLinesFromTop (countTokens exampleEnv) \<and>
   maxPromptTokens (tightOptions 10) \<le> 20 \<and>
   0 \<le> prefixPercentage (tightOptions 10) \<and>
   constructAutocompletePrompt exampleEnv ''/src/main.ts'' (join [''aaaaaa'', ''bb''] [NL]) ''c''
     [] jsLanguage noDefinition (tightOptions 10) [] []
   = Inr \<lparr>prefix = ''bb'', suffix = ''c'', useFim = True, completeMultiline = False\<rparr> \<and>
   (\<exists>r' snippetsPart kept restored.
      constructAutocompletePrompt exampleEnv ''/src/main.ts'' (join [''aaaaaa'', ''bb''] [NL])
        ''c'' [] jsLanguage noDefinition ((tightOptions 10)\<lparr>maxPromptTokens := 20\<rparr>) [] []
      = Inr r' \<and>
      ''bb'' = snippetsPart @ kept \<and>
      prefix r' = snippetsPart @ restored @ kept)"
proof -
  have pruner: "pruneLinesFromTop exampleEnv = spec_pruneLinesFromTop (countTokens exampleEnv)"
    by (simp add: exampleEnv_def)
  have budget: "maxPromptTokens (tightOptions 10) \<le> 20"
    by (simp add: tightOptions_def)
  have percentage: "0 \<le> prefixPercentage (tightOptions 10)"
    by (simp add: tightOptions_def)
  have run: "constructAutocompletePrompt exampleEnv ''/src/main.ts''
      (join [''aaaaaa'', ''bb''] [NL]) ''c'' [] jsLanguage noDefinition (tightOptions 10) [] []
    = Inr \<lparr>prefix = ''bb'', suffix = ''c'', useFim = True, completeMultiline = False\<rparr>"
    by code_simp
  from larger_budget_keeps_more_prefix [OF pruner budget percentage run]
  obtain r' snippetsPart kept restored where
    run': "constructAutocompletePrompt exampleEnv ''/src/main.ts''
        (join [''aaaaaa'', ''bb''] [NL]) ''c'' [] jsLanguage noDefinition
        ((tightOptions 10)\<lparr>maxPromptTokens := 20\<rparr>) [] []
      = Inr r'"
    and small: "prefix \<lparr>prefix = ''bb'', suffix = ''c'', useFim = True,
        completeMultiline = False\<rparr> = snippetsPart @ kept"
    and large: "prefix r' = snippetsPart @ restored @ kept"
    by blast
  from small have small': "''bb'' = snippetsPart @ kept" by simp
  from run' small' large have "\<exists>r' snippetsPart kept restored.
      constructAutocompletePrompt exampleEnv ''/src/main.ts'' (join [''aaaaaa'', ''bb''] [NL])
        ''c'' [] jsLanguage noDefinition ((tightOptions 10)\<lparr>maxPromptTokens := 20\<rparr>) [] []
      = Inr r' \<and>
      ''bb'' = snippetsPart @ kept \<and>
      prefix r' = snippetsPart @ restored @ kept"
    by blast
  with pruner budget percentage run show ?thesis by blast
qed

text \<open>
  C9, as stated, fails. One token per character, a prefix of six tokens on one line, a
  suffix of nine tokens on one line, half of the budget for the prefix: with a budget of
  10 the prefix line does not fit in 5 and is dropped, and the suffix fits in 9, nine
  tokens in all; with a budget of 12 the prefix fits in 6, leaves 6 for the suffix, whose
  line is dropped, six tokens in all.
\<close>

theorem larger_budget_smaller_prompt:
  "constructAutocompletePrompt exampleEnv ''/src/main.ts'' ''aaaaaa'' ''bbbbbbbbb'' []
     jsLanguage noDefinition (tightOptions 10) [] []
   = Inr \<lparr>prefix = [], suffix = ''bbbbbbbbb'', useFim = True, completeMultiline = False\<rparr> \<and>
   constructAutocompletePrompt exampleEnv ''/src/main.ts'' ''aaaaaa'' ''bbbbbbbbb'' []
     jsLanguage noDefinition ((tightOptions 10)\<lparr>maxPromptTokens := 12\<rparr>) [] []
   = Inr \<lparr>prefix = ''aaaaaa'', suffix = [], useFim = True, completeMultiline = False\<rparr> \<and>
   countTokens exampleEnv ''aaaaaa'' + countTokens exampleEnv []
     < countTokens exampleEnv [] + countTokens exampleEnv ''bbbbbbbbb''"
  by code_simp

text \<open>
  C10. A block text without an opening brace loses nothing at its front; one without a
  closing brace loses its final character; with neither, the inner text is the text
  without its final character, trimmed. On every path that is not empty the heuristic
  returns a decision and raises nothing.
\<close>

theorem missing_braces_are_tolerated:
  "(CHR ''{'' \<notin> set t \<longrightarrow> afterOpeningBrace t = t) \<and>
   (CHR ''}'' \<notin> set t \<longrightarrow>
      beforeClosingBrace (afterOpeningBrace t) = butlast (afterOpeningBrace t)) \<and>
   (CHR ''{'' \<notin> set t \<and> CHR ''}'' \<notin> set t \<longrightarrow> innerText t = trim (butlast t)) \<and>
   (treePath \<noteq> [] \<longrightarrow> (\<exists>decision. shouldCompleteMultiline treePath cursorLine = Inr decision))"
proof (intro conjI impI)
  assume "CHR ''{'' \<notin> set t"
  then show "afterOpeningBrace t = t" by (rule afterOpeningBrace_none)
next
  assume no: "CHR ''}'' \<notin> set t"
  have "set (afterOpeningBrace t) \<subseteq> set t"
    by (simp add: afterOpeningBrace_def slice_from_def set_drop_subset)
  with no have "CHR ''}'' \<notin> set (afterOpeningBrace t)" by blast
  then show "beforeClosingBrace (afterOpeningBrace t) = butlast (afterOpeningBrace t)"
    by (rule beforeClosingBrace_none)
next
  assume "CHR ''{'' \<notin> set t \<and> CHR ''}'' \<notin> set t"
  then show "innerText t = trim (butlast t)"
    by (simp add: innerText_def afterOpeningBrace_none beforeClosingBrace_none)
next
  show "\<exists>decision. shouldCompleteMultiline treePath cursorLine = Inr decision"
    using multilineLoop_total [of "length treePath" treePath cursorLine]
    by (auto simp: shouldCompleteMultiline_def)
qed

theorem missing_braces_are_tolerated_witness:
  "afterOpeningBrace ''pass'' = ''pass'' \<and>
   beforeClosingBrace (afterOpeningBrace ''pass'') = ''pas'' \<and>
   innerText ''pass'' = ''pas'' \<and>
   shouldCompleteMultiline nestedPath 1 = Inr True"
proof -
  have open_brace: "CHR ''{'' \<notin> set ''pass''" by simp
  have close_brace: "CHR ''}'' \<notin> set ''pass''" by simp
  have path: "nestedPath \<noteq> []" by (simp add: nestedPath_def)
  have trimmed: "trim ''pas'' = ''pas''" by code_simp
  have decision: "shouldCompleteMultiline nestedPath 1 = Inr True" by code_simp
  from missing_braces_are_tolerated [of "''pass''" nestedPath 1] show ?thesis
    using open_brace close_brace path trimmed decision by auto
qed

end
